(* ===== verification/Prelude.thy ===== *)
theory Prelude
  imports Main "HOL-Library.Log_Nat"
begin

text \<open>
  Shared vocabulary of the development: the collections of rewrite rules that the
  component theories add to, and the facts about powers of two over the rationals
  that the model of JavaScript numbers (theory \<open>JsNumber\<close>) rests on.  A JavaScript
  \<open>number\<close> is an IEEE-754 binary64 value; its finite values are the rationals
  \<open>m * 2 powi e\<close>, so powers of two with integer exponents are the common currency.
\<close>

named_theorems js_eval "rules that evaluate the JavaScript number operations on concrete values"
named_theorems pow2_simps "rewrite rules for powers of two with integer exponents"

type_synonym exponent = int

lemma pow2_pos [simp, pow2_simps]: "0 < (2::rat) powi k"
  by (simp add: power_int_def)

lemma pow2_nonzero [simp, pow2_simps]: "(2::rat) powi k \<noteq> 0"
  by (simp add: power_int_def)

lemma pow2_add [pow2_simps]: "(2::rat) powi (k + l) = 2 powi k * 2 powi l"
  by (simp add: power_int_add)

lemma pow2_diff [pow2_simps]: "(2::rat) powi (k - l) = 2 powi k / 2 powi l"
  by (simp add: power_int_diff)

lemma pow2_le_iff [simp, pow2_simps]: "(2::rat) powi k \<le> 2 powi l \<longleftrightarrow> k \<le> l"
proof
  assume "2 powi k \<le> (2::rat) powi l"
  then show "k \<le> l"
    using power_int_strict_increasing [of l k "2::rat"] by fastforce
next
  assume "k \<le> l"
  then show "2 powi k \<le> (2::rat) powi l"
    by (rule power_int_increasing) simp
qed

lemma pow2_less_iff [simp, pow2_simps]: "(2::rat) powi k < 2 powi l \<longleftrightarrow> k < l"
  using pow2_le_iff [of l k] by (simp add: not_le [symmetric])

lemma pow2_nonneg_exp [pow2_simps]: "0 \<le> k \<Longrightarrow> (2::rat) powi k = of_int (2 ^ nat k)"
  by (simp add: power_int_nonneg_exp)

lemma pow2_ge_one_iff [simp]: "1 \<le> (2::rat) powi k \<longleftrightarrow> 0 \<le> k"
  using pow2_le_iff [of 0 k] by simp

lemma pow2_less_one_iff [simp]: "(2::rat) powi k < 1 \<longleftrightarrow> k < 0"
  using pow2_less_iff [of k 0] by simp

lemma pow2_div_int:
  assumes "s \<le> k"
  shows "(2::rat) powi k / 2 powi s = of_int (2 ^ nat (k - s))"
proof -
  have "(2::rat) powi k / 2 powi s = 2 powi (k - s)" by (simp add: pow2_diff)
  also have "\<dots> = of_int (2 ^ nat (k - s))" using assms by (simp add: pow2_nonneg_exp)
  finally show ?thesis .
qed

end
