(* ===== verification/JsNumber.thy ===== *)
theory JsNumber
  imports Prelude
begin

text \<open>
  The JavaScript \<open>number\<close> type as far as \<open>calculateRamPerformance\<close>
  (src/web/app/_hooks/useGetPerformanceTag.ts) uses it: IEEE-754 binary64 values, the
  division operator, the relational operators less-than and greater-or-equal, and
  numeric literals.  Finite values are kept as exact rationals (\<open>Num\<close>); the
  infinities and NaN are constructors of their own.  Every arithmetic result is rounded
  to binary64 by \<open>js_round\<close>, an executable round-to-nearest-ties-to-even with 53
  significant bits, subnormals below \<open>2 powi -1022\<close> and overflow to infinity at
  \<open>2 ^ 1024\<close> (the binary64 parameters of IEEE-754 and ECMA-262 6.1.6.1).
  Signed zero is not modelled: negative zero is \<open>Num 0\<close>, which only changes the sign
  of an infinite quotient by a negative zero, a value no caller here produces.
  Relational comparison follows the ECMA-262 abstract operation Number lessThan, which answers
  \<open>undefined\<close> (here \<open>None\<close>) when either side is NaN; less-than is true only on
  \<open>Some True\<close> and greater-or-equal only on \<open>Some False\<close>.
\<close>

section \<open>Definitions\<close>

datatype jsnum = Num rat | PosInf | NegInf | NaN

definition round_half_even :: "rat \<Rightarrow> int" where
  "round_half_even x =
     (let f = \<lfloor>x\<rfloor>; r = x - of_int f
      in if r < 1/2 then f else if 1/2 < r then f + 1 else if even f then f else f + 1)"

definition rat_exponent :: "rat \<Rightarrow> int" where
  "rat_exponent q =
     (let (n, d) = quotient_of q; k = bitlen n - bitlen d
      in if 2 powi k \<le> q then k else k - 1)"

definition binary64_quantum :: "rat \<Rightarrow> int" where
  "binary64_quantum q = max (rat_exponent q) (-1022) - 52"

definition round_binary64 :: "rat \<Rightarrow> rat" where
  "round_binary64 q =
     of_int (round_half_even (q / 2 powi binary64_quantum q)) * 2 powi binary64_quantum q"

definition js_round :: "rat \<Rightarrow> jsnum" where
  "js_round q =
     (if q = 0 then Num 0
      else let v = round_binary64 \<bar>q\<bar>
           in if 2 ^ 1024 \<le> v then (if 0 < q then PosInf else NegInf)
              else Num (if 0 < q then v else - v))"

definition js_literal :: "rat \<Rightarrow> jsnum" where
  "js_literal q = js_round q"

fun js_div :: "jsnum \<Rightarrow> jsnum \<Rightarrow> jsnum" where
  "js_div NaN y = NaN"
| "js_div x NaN = NaN"
| "js_div (Num x) (Num y) =
     (if y = 0 then (if x = 0 then NaN else if 0 < x then PosInf else NegInf)
      else js_round (x / y))"
| "js_div (Num x) y = Num 0"
| "js_div PosInf (Num y) = (if y < 0 then NegInf else PosInf)"
| "js_div NegInf (Num y) = (if y < 0 then PosInf else NegInf)"
| "js_div x y = NaN"

fun number_less_than :: "jsnum \<Rightarrow> jsnum \<Rightarrow> bool option" where
  "number_less_than NaN y = None"
| "number_less_than x NaN = None"
| "number_less_than (Num x) (Num y) = Some (x < y)"
| "number_less_than PosInf y = Some False"
| "number_less_than x PosInf = Some True"
| "number_less_than NegInf NegInf = Some False"
| "number_less_than NegInf y = Some True"
| "number_less_than x NegInf = Some False"

definition js_less :: "jsnum \<Rightarrow> jsnum \<Rightarrow> bool" where
  "js_less x y = (number_less_than x y = Some True)"

definition js_ge :: "jsnum \<Rightarrow> jsnum \<Rightarrow> bool" where
  "js_ge x y = (number_less_than x y = Some False)"

section \<open>Rounding lemmas\<close>

lemma int_pow2_bounds:
  assumes "0 < (n::int)"
  shows "2 powi (bitlen n - 1) \<le> (of_int n::rat) \<and> (of_int n::rat) < 2 powi (bitlen n)"
proof -
  have b: "2 ^ nat (bitlen n - 1) \<le> n" "n < 2 ^ nat (bitlen n)"
    using bitlen_bounds [OF assms] by auto
  have "1 \<le> bitlen n"
    using b(2) assms by (cases "bitlen n \<le> 0") (auto simp: bitlen_def)
  then have "(2::rat) powi (bitlen n - 1) = of_int (2 ^ nat (bitlen n - 1))"
    and "(2::rat) powi (bitlen n) = of_int (2 ^ nat (bitlen n))"
    by (simp_all add: pow2_nonneg_exp)
  moreover have "(of_int (2 ^ nat (bitlen n - 1))::rat) \<le> of_int n"
    using b(1) by (simp only: of_int_le_iff)
  moreover have "(of_int n::rat) < of_int (2 ^ nat (bitlen n))"
    using b(2) by (simp only: of_int_less_iff)
  ultimately show ?thesis by simp
qed

lemma rat_exponent_bounds:
  assumes "0 < q"
  shows "2 powi rat_exponent q \<le> q \<and> q < 2 powi (rat_exponent q + 1)"
proof -
  obtain n d where nd: "quotient_of q = (n, d)" by (cases "quotient_of q")
  have d: "0 < d" using nd by (rule quotient_of_denom_pos)
  have q: "q = of_int n / of_int d" using nd by (rule quotient_of_div)
  have n: "0 < n"
    using assms d by (simp add: q zero_less_divide_iff)
  let ?k = "bitlen n - bitlen d"
  note N = int_pow2_bounds [OF n] and D = int_pow2_bounds [OF d]
  have "2 powi (bitlen n - 1) / 2 powi (bitlen d) < q"
    unfolding q by (rule frac_less2) (use N D d in auto)
  then have lo: "2 powi (?k - 1) < q"
    by (simp add: pow2_diff)
  have "q < 2 powi (bitlen n) / 2 powi (bitlen d - 1)"
    unfolding q by (rule frac_less) (use N D d n in auto)
  moreover have "?k + 1 = bitlen n - (bitlen d - 1)" by simp
  ultimately have hi: "q < 2 powi (?k + 1)"
    by (simp only: pow2_diff)
  show ?thesis
  proof (cases "2 powi ?k \<le> q")
    case True
    then have "rat_exponent q = ?k" by (simp add: rat_exponent_def nd)
    with True hi show ?thesis by simp
  next
    case False
    then have "rat_exponent q = ?k - 1" by (simp add: rat_exponent_def nd)
    with False lo show ?thesis by simp
  qed
qed

lemma rat_exponent_unique:
  assumes "2 powi e \<le> q" and "q < 2 powi (e + 1)"
  shows "rat_exponent q = e"
proof -
  have "0 < q" using assms(1) pow2_pos [of e] by linarith
  note b = rat_exponent_bounds [OF this]
  have "(2::rat) powi e < 2 powi (rat_exponent q + 1)"
    using assms(1) b by linarith
  moreover have "(2::rat) powi rat_exponent q < 2 powi (e + 1)"
    using assms(2) b by linarith
  ultimately show ?thesis by simp
qed

lemma floor_bounds_rat: "of_int \<lfloor>x\<rfloor> \<le> (x::rat) \<and> x < of_int \<lfloor>x\<rfloor> + 1"
  by linarith

lemma round_half_even_of_int [simp]: "round_half_even (of_int m) = m"
  by (simp add: round_half_even_def)

lemma round_half_even_less_iff:
  "round_half_even x < m \<longleftrightarrow>
     x < of_int m - 1/2 \<or> (x = of_int m - 1/2 \<and> even (m - 1))"
proof -
  define f where "f = \<lfloor>x\<rfloor>"
  have fx: "of_int f \<le> x" "x < of_int f + 1"
    using floor_bounds_rat [of x] by (simp_all add: f_def)
  have r: "round_half_even x =
      (if x - of_int f < 1/2 then f else if 1/2 < x - of_int f then f + 1
       else if even f then f else f + 1)"
    by (simp add: round_half_even_def f_def Let_def)
  consider "f + 1 < m" | "f + 1 = m" | "m \<le> f" by linarith
  then show ?thesis
  proof cases
    case 1
    then have "of_int f + 1 \<le> (of_int m::rat) - 1" by linarith
    then have "x < of_int m - 1/2" using fx by linarith
    with 1 show ?thesis by (simp add: r)
  next
    case 2
    then have m: "(of_int m::rat) = of_int f + 1" by simp
    show ?thesis using fx 2 by (auto simp: r m)
  next
    case 3
    then have "(of_int m::rat) \<le> of_int f" by simp
    with fx 3 show ?thesis by (auto simp: r)
  qed
qed

lemma round_half_even_mono:
  assumes "x \<le> y"
  shows "round_half_even x \<le> round_half_even y"
proof (rule ccontr)
  assume "\<not> ?thesis"
  then have "round_half_even y < round_half_even x" by simp
  then have y: "y < of_int (round_half_even x) - 1/2 \<or>
      (y = of_int (round_half_even x) - 1/2 \<and> even (round_half_even x - 1))"
    by (simp only: round_half_even_less_iff)
  have "\<not> (x < of_int (round_half_even x) - 1/2 \<or>
      (x = of_int (round_half_even x) - 1/2 \<and> even (round_half_even x - 1)))"
    using round_half_even_less_iff [of x "round_half_even x"] by simp
  with y assms show False by auto
qed

lemma round_half_even_ge_int:
  "of_int m \<le> x \<Longrightarrow> m \<le> round_half_even x"
  using round_half_even_mono [of "of_int m" x] by simp

lemma round_half_even_le_int:
  "x \<le> of_int m \<Longrightarrow> round_half_even x \<le> m"
  using round_half_even_mono [of x "of_int m"] by simp

lemma binary64_quantum_normal:
  assumes "0 < q" and "2 powi (-1022) \<le> q"
  shows "binary64_quantum q = rat_exponent q - 52"
proof -
  have "2 powi (-1022) < (2::rat) powi (rat_exponent q + 1)"
    using assms rat_exponent_bounds [OF assms(1)] by linarith
  then have "-1022 < rat_exponent q + 1" by (simp only: pow2_less_iff)
  then show ?thesis by (simp add: binary64_quantum_def)
qed

lemma round_binary64_lower:
  assumes q: "0 < q" and k: "2 powi k \<le> q" "-1022 \<le> k"
  shows "2 powi k \<le> round_binary64 q"
proof -
  define e where "e = rat_exponent q"
  note eb = rat_exponent_bounds [OF q, folded e_def]
  have "2 powi k < (2::rat) powi (e + 1)" using k eb by linarith
  then have ke: "k \<le> e" by simp
  have "2 powi (-1022) \<le> q" using k(1,2) pow2_le_iff [of "-1022" k] by linarith
  then have s: "binary64_quantum q = e - 52"
    using binary64_quantum_normal [OF q] by (simp add: e_def)
  have "(2::rat) powi e / 2 powi (e - 52) \<le> q / 2 powi (e - 52)"
    using eb by (simp add: divide_right_mono)
  then have "of_int (2 ^ 52) \<le> q / 2 powi (e - 52)"
    by (simp add: pow2_div_int)
  then have "2 ^ 52 \<le> round_half_even (q / 2 powi (e - 52))"
    by (rule round_half_even_ge_int)
  then have "(of_int (2 ^ 52)::rat) \<le> of_int (round_half_even (q / 2 powi (e - 52)))"
    by (simp only: of_int_le_iff)
  then have "(of_int (2 ^ 52)::rat) * 2 powi (e - 52) \<le>
      of_int (round_half_even (q / 2 powi (e - 52))) * 2 powi (e - 52)"
    by (rule mult_right_mono) simp
  moreover have "(of_int (2 ^ 52)::rat) * 2 powi (e - 52) = 2 powi e"
    by (simp add: pow2_diff)
  ultimately have "(2::rat) powi e \<le> of_int (round_half_even (q / 2 powi (e - 52))) * 2 powi (e - 52)"
    by linarith
  then have "2 powi e \<le> round_binary64 q"
    by (simp only: round_binary64_def s)
  with ke show ?thesis
    using pow2_le_iff [of k e] by linarith
qed

lemma round_binary64_upper:
  assumes q: "0 < q" and k: "q \<le> 2 powi k" "-1022 \<le> k"
  shows "round_binary64 q \<le> 2 powi k"
proof -
  define s where "s = binary64_quantum q"
  have "2 powi rat_exponent q \<le> (2::rat) powi k"
    using rat_exponent_bounds [OF q] k(1) by linarith
  then have "rat_exponent q \<le> k" by simp
  then have sk: "s \<le> k" using k(2) by (simp add: s_def binary64_quantum_def)
  have "q / 2 powi s \<le> 2 powi k / 2 powi s"
    using k(1) by (simp add: divide_right_mono)
  then have "q / 2 powi s \<le> of_int (2 ^ nat (k - s))"
    by (simp only: pow2_div_int [OF sk])
  then have "round_half_even (q / 2 powi s) \<le> 2 ^ nat (k - s)"
    by (rule round_half_even_le_int)
  then have "(of_int (round_half_even (q / 2 powi s))::rat) \<le> of_int (2 ^ nat (k - s))"
    by (simp only: of_int_le_iff)
  then have "(of_int (round_half_even (q / 2 powi s))::rat) * 2 powi s \<le>
      of_int (2 ^ nat (k - s)) * 2 powi s"
    by (rule mult_right_mono) simp
  moreover have "(of_int (2 ^ nat (k - s))::rat) * 2 powi s = 2 powi k"
    using pow2_div_int [OF sk] by (simp add: field_simps)
  ultimately show ?thesis
    by (simp only: round_binary64_def s_def [symmetric])
qed

lemma round_binary64_window:
  assumes "1/2 \<le> q" and "q < 1"
  shows "round_binary64 q = of_int (round_half_even (q * 2 ^ 53)) / 2 ^ 53"
proof -
  have "rat_exponent q = -1"
    by (rule rat_exponent_unique) (use assms in \<open>simp_all add: power_int_minus_divide\<close>)
  then have "binary64_quantum q = -53" by (simp add: binary64_quantum_def)
  then show ?thesis
    by (simp add: round_binary64_def power_int_minus_divide)
qed

lemma js_round_pos:
  "0 < q \<Longrightarrow> js_round q =
     (if 2 ^ 1024 \<le> round_binary64 q then PosInf else Num (round_binary64 q))"
  by (simp add: js_round_def)

lemma pow2_below_overflow: "k \<le> 1023 \<Longrightarrow> (2::rat) powi k < 2 ^ 1024"
proof -
  assume "k \<le> 1023"
  then have "(2::rat) powi k < 2 powi 1024" by (simp only: pow2_less_iff)
  then show ?thesis by (simp only: power_int_numeral)
qed

lemma js_round_upper:
  assumes "0 < q" "q \<le> 2 powi k" "-1022 \<le> k" "k \<le> 1023"
  shows "\<exists>v. js_round q = Num v \<and> v \<le> 2 powi k"
proof -
  have v: "round_binary64 q \<le> 2 powi k"
    using assms(1-3) by (rule round_binary64_upper)
  then have "round_binary64 q < 2 ^ 1024"
    using pow2_below_overflow [OF assms(4)] by linarith
  with v assms(1) show ?thesis by (simp add: js_round_pos)
qed

lemma js_round_lower:
  assumes "0 < q" "2 powi k \<le> q" "-1022 \<le> k"
  shows "js_round q = PosInf \<or> (\<exists>v. js_round q = Num v \<and> 2 powi k \<le> v)"
  using round_binary64_lower [OF assms] assms(1) by (simp add: js_round_pos)

lemma js_round_window:
  assumes "1/2 \<le> q" "q < 1"
  shows "js_round q = Num (of_int (round_half_even (q * 2 ^ 53)) / 2 ^ 53)"
proof -
  have q: "0 < q" using assms(1) by linarith
  have "round_binary64 q \<le> 2 powi 0"
    by (rule round_binary64_upper) (use assms q in auto)
  then have "round_binary64 q < 2 ^ 1024" by simp
  with q show ?thesis by (simp add: js_round_pos round_binary64_window [OF assms])
qed

lemma round_binary64_nonneg:
  assumes "0 \<le> q"
  shows "0 \<le> round_binary64 q"
proof -
  have "(of_int 0::rat) \<le> q / 2 powi binary64_quantum q" using assms by simp
  then have "0 \<le> round_half_even (q / 2 powi binary64_quantum q)"
    by (rule round_half_even_ge_int)
  then show ?thesis by (simp add: round_binary64_def)
qed

lemma js_round_negative:
  assumes "q < 0"
  shows "js_round q = NegInf \<or> (\<exists>v. js_round q = Num v \<and> v \<le> 0)"
  using assms round_binary64_nonneg [of "\<bar>q\<bar>"] by (auto simp: js_round_def Let_def)

lemma js_round_zero [simp]: "js_round 0 = Num 0"
  by (simp add: js_round_def)


lemma floor_0_8_scaled: "\<lfloor>(36028797018963968 / 5 :: rat)\<rfloor> = 7205759403792793"
  by (simp add: floor_divide_of_int_eq [where 'a=rat, of 36028797018963968 5, simplified])

lemma js_literal_0_8 [js_eval]: "js_literal (4/5) = Num (3602879701896397 / 4503599627370496)"
  by (simp add: js_literal_def js_round_window round_half_even_def floor_0_8_scaled)

end
