(* ===== verification/PerformanceTag.thy ===== *)
theory PerformanceTag
  imports JsNumber
begin

text \<open>
  The RAM-fit classifier of src/web/app/_hooks/useGetPerformanceTag.ts.
  \<open>model_performance\<close> is the enum \<open>ModelPerformance\<close> of the tag component
  (its file is not under src/, its three constructors are the ones the hook names),
  ordered by severity.  \<open>calculateRamPerformance\<close> (lines 40-53) divides with the
  JavaScript division and compares with the JavaScript less-than, greater-or-equal and the
  literal \<open>0.8\<close>; its if-chain (lines 46-52) is \<open>ram_performance_of_percentage\<close>.
  \<open>spec_tier\<close> is the classification the specification (section 4.1) gives for
  the exact ratio: below 0.8 Positive, from 0.8 below 1 Neutral, from 1 Negative.  The
  comment at lines 7-10 differs at a ratio of exactly 1, which it puts in the yellow
  band; the code follows the specification there.  The lemmas show that for every pair
  of binary64 inputs with a nonzero total the code computes \<open>spec_tier\<close> of the
  exact ratio, what it does on equal amounts and on a zero or non-finite total, and
  that the tag is monotone in the requirement and antitone in the total.
\<close>

section \<open>Definitions\<close>

datatype model_performance = PerformancePositive | PerformanceNeutral | PerformanceNegative

definition ram_performance_of_percentage :: "jsnum \<Rightarrow> model_performance" where
  "ram_performance_of_percentage percentage =
     (if js_less percentage (js_literal (4/5)) then PerformancePositive
      else if js_ge percentage (js_literal (4/5)) \<and> js_less percentage (Num 1)
      then PerformanceNeutral
      else PerformanceNegative)"

definition calculateRamPerformance :: "jsnum \<Rightarrow> jsnum \<Rightarrow> model_performance" where
  "calculateRamPerformance requiredRamAmt totalRamAmt =
     ram_performance_of_percentage (js_div requiredRamAmt totalRamAmt)"

definition spec_tier :: "rat \<Rightarrow> model_performance" where
  "spec_tier ratio =
     (if ratio < 4/5 then PerformancePositive
      else if ratio < 1 then PerformanceNeutral
      else PerformanceNegative)"

instantiation model_performance :: linorder
begin

definition severity :: "model_performance \<Rightarrow> nat" where
  "severity t = (case t of PerformancePositive \<Rightarrow> 0 | PerformanceNeutral \<Rightarrow> 1 | PerformanceNegative \<Rightarrow> 2)"

definition less_eq_model_performance :: "model_performance \<Rightarrow> model_performance \<Rightarrow> bool" where
  "less_eq_model_performance s t = (severity s \<le> severity t)"

definition less_model_performance :: "model_performance \<Rightarrow> model_performance \<Rightarrow> bool" where
  "less_model_performance s t = (severity s < severity t)"

instance
proof
  fix s t u :: model_performance
  show "(s < t) = (s \<le> t \<and> \<not> t \<le> s)"
    by (auto simp: less_eq_model_performance_def less_model_performance_def)
  show "s \<le> s" by (simp add: less_eq_model_performance_def)
  show "s \<le> t \<Longrightarrow> t \<le> u \<Longrightarrow> s \<le> u" by (simp add: less_eq_model_performance_def)
  show "s \<le> t \<Longrightarrow> t \<le> s \<Longrightarrow> s = t"
    by (cases s; cases t) (simp_all add: less_eq_model_performance_def severity_def)
  show "s \<le> t \<or> t \<le> s" by (auto simp: less_eq_model_performance_def)
qed

end

section \<open>Lemmas\<close>

lemma perf_num [simp]:
  "ram_performance_of_percentage (Num v) =
     (if v < 3602879701896397 / 4503599627370496 then PerformancePositive
      else if v < 1 then PerformanceNeutral else PerformanceNegative)"
  by (simp add: ram_performance_of_percentage_def js_literal_0_8 js_less_def js_ge_def)

lemma perf_special [simp]:
  "ram_performance_of_percentage PosInf = PerformanceNegative"
  "ram_performance_of_percentage NaN = PerformanceNegative"
  "ram_performance_of_percentage NegInf = PerformancePositive"
  by (simp_all add: ram_performance_of_percentage_def js_literal_0_8 js_less_def js_ge_def)

lemma calc_num_pos:
  "0 < y \<Longrightarrow> calculateRamPerformance (Num x) (Num y) = ram_performance_of_percentage (js_round (x / y))"
  by (simp add: calculateRamPerformance_def)

lemma perf_round_small:
  assumes "0 \<le> r" "r < 1/2"
  shows "ram_performance_of_percentage (js_round r) = PerformancePositive"
proof (cases "r = 0")
  case False
  with assms have "0 < r" by simp
  moreover have "r \<le> 2 powi (-1)" using assms by (simp add: power_int_minus_divide)
  ultimately obtain v where "js_round r = Num v" "v \<le> 2 powi (-1)"
    using js_round_upper [of r "-1"] by auto
  then show ?thesis by (simp add: power_int_minus_divide)
qed simp

lemma perf_round_large:
  assumes "1 \<le> r"
  shows "ram_performance_of_percentage (js_round r) = PerformanceNegative"
proof -
  have "js_round r = PosInf \<or> (\<exists>v. js_round r = Num v \<and> 2 powi 0 \<le> v)"
    by (rule js_round_lower) (use assms in auto)
  then show ?thesis by auto
qed

lemma nat_ratio_threshold_0_8:
  assumes "b < 2 ^ 54"
  shows "a * 18014398509481984 < 14411518807585587 * b \<longleftrightarrow> 5 * a < 4 * (b::nat)"
proof -
  have "b < 18014398509481984" using assms by simp
  then show ?thesis by linarith
qed

lemma nat_ratio_threshold_1:
  assumes "b < 2 ^ 54" "a < (b::nat)"
  shows "a * 18014398509481984 < 18014398509481983 * b"
proof -
  have "b < 18014398509481984" using assms by simp
  with assms(2) show ?thesis by linarith
qed

lemma perf_round_window:
  assumes ab: "r = of_nat a / of_nat b" "0 < b" "b < 2 ^ 54" and w: "1/2 \<le> r" "r < 1"
  shows "ram_performance_of_percentage (js_round r) = spec_tier r"
proof -
  define m where "m = round_half_even (r * 2 ^ 53)"
  have jr: "js_round r = Num (of_int m / 2 ^ 53)"
    using js_round_window [OF w] by (simp add: m_def)
  have bpos: "(0::rat) < of_nat b" using ab(2) by simp
  have x: "r * 2 ^ 53 = of_nat a * 2 ^ 53 / of_nat b" using ab(1) by simp
  have "a < b"
    using w(2) bpos by (simp add: ab(1) divide_less_eq)
  then have "(of_nat (a * 18014398509481984)::rat) < of_nat (18014398509481983 * b)"
    using nat_ratio_threshold_1 [OF ab(3)] by (simp only: of_nat_less_iff)
  then have "(of_nat a::rat) * 18014398509481984 < 18014398509481983 * of_nat b"
    by simp
  then have "r * 2 ^ 53 < of_int (2 ^ 53) - 1/2"
    using bpos by (simp add: ab(1) field_simps)
  then have "m < 2 ^ 53"
    by (simp add: m_def round_half_even_less_iff)
  then have lt1: "(of_int m::rat) / 2 ^ 53 < 1"
    by (simp add: divide_less_eq)
  have "m < 7205759403792794 \<longleftrightarrow> r * 2 ^ 53 < of_int 7205759403792794 - 1/2"
    by (simp add: m_def round_half_even_less_iff)
  also have "\<dots> \<longleftrightarrow> (of_nat a::rat) * 18014398509481984 < 14411518807585587 * of_nat b"
    using bpos by (simp add: ab(1) field_simps)
  also have "\<dots> \<longleftrightarrow> (of_nat (a * 18014398509481984)::rat) < of_nat (14411518807585587 * b)"
    by simp
  also have "\<dots> \<longleftrightarrow> a * 18014398509481984 < 14411518807585587 * b"
    by (rule of_nat_less_iff)
  also have "\<dots> \<longleftrightarrow> 5 * a < 4 * b"
    using ab(3) by (rule nat_ratio_threshold_0_8)
  also have "\<dots> \<longleftrightarrow> (of_nat (5 * a)::rat) < of_nat (4 * b)"
    by (simp only: of_nat_less_iff)
  also have "\<dots> \<longleftrightarrow> r < 4/5"
    using bpos by (simp add: ab(1) field_simps)
  finally have th: "m < 7205759403792794 \<longleftrightarrow> r < 4/5" .
  have "(of_int m::rat) / 2 ^ 53 < 3602879701896397 / 4503599627370496 \<longleftrightarrow> m < 7205759403792794"
    by (simp add: divide_less_eq less_divide_eq)
  with th lt1 w(2) show ?thesis
    by (simp add: jr spec_tier_def)
qed

lemma spec_tier_below_half: "r < 1/2 \<Longrightarrow> spec_tier r = PerformancePositive"
  by (simp add: spec_tier_def)

lemma spec_tier_above_one: "1 \<le> r \<Longrightarrow> spec_tier r = PerformanceNegative"
  by (simp add: spec_tier_def)

lemma perf_round_nat_ratio:
  assumes "0 < b" "b < 2 ^ 54"
  shows "ram_performance_of_percentage (js_round (of_nat a / of_nat b)) = spec_tier (of_nat a / of_nat b)"
proof -
  let ?r = "(of_nat a / of_nat b :: rat)"
  have "0 \<le> ?r" by simp
  consider "?r < 1/2" | "1/2 \<le> ?r" "?r < 1" | "1 \<le> ?r" by linarith
  then show ?thesis
  proof cases
    case 1
    with \<open>0 \<le> ?r\<close> show ?thesis by (simp add: perf_round_small spec_tier_below_half)
  next
    case 2
    show ?thesis by (rule perf_round_window [OF refl assms 2])
  next
    case 3
    then show ?thesis by (simp add: perf_round_large spec_tier_above_one)
  qed
qed

lemma binary64_ratio_as_nat_ratio:
  fixes r :: rat
  assumes A: "A < 2 ^ 53" and B: "0 < B" "B < 2 ^ 53"
    and r: "r = (of_nat A * 2 powi i) / (of_nat B * 2 powi j)" and half: "1/2 \<le> r"
  obtains a b where "r = of_nat a / of_nat b" "0 < b" "b < 2 ^ 54"
proof -
  have r': "r = of_nat A * 2 powi (i - j) / of_nat B"
    by (simp add: r pow2_diff field_simps)
  show ?thesis
  proof (cases "j \<le> i")
    case True
    then have "r = of_nat (A * 2 ^ nat (i - j)) / of_nat B"
      by (simp add: r' pow2_nonneg_exp)
    moreover have "B < 2 ^ 54" using B(2) by simp
    ultimately show ?thesis using B(1) that by blast
  next
    case False
    define d :: nat where "d = 2 ^ nat (j - i)"
    have d: "(2::rat) powi (i - j) = 1 / of_nat d"
      using False by (simp add: d_def power_int_minus_divide [of 2 "j - i", simplified] pow2_nonneg_exp)
    have r'': "r = of_nat A / of_nat (B * d)"
      by (simp add: r' d)
    have Bd: "0 < B * d" using B(1) by (simp add: d_def)
    then have "(of_nat (B * d)::rat) \<le> 2 * of_nat A"
      using half by (simp add: r'' field_simps)
    then have "B * d \<le> 2 * A" by (metis of_nat_le_iff of_nat_mult of_nat_numeral)
    with A have "B * d < 2 ^ 54" by simp
    with r'' Bd that show ?thesis by blast
  qed
qed

lemma calc_nat_ratio:
  "0 < b \<Longrightarrow> b < 2 ^ 54 \<Longrightarrow>
     calculateRamPerformance (Num (of_nat a)) (Num (of_nat b)) = spec_tier (of_nat a / of_nat b)"
  by (simp add: calc_num_pos perf_round_nat_ratio)

lemma spec_tier_mono: "r \<le> r' \<Longrightarrow> spec_tier r \<le> spec_tier r'"
  by (simp add: spec_tier_def less_eq_model_performance_def severity_def)

lemma perf_round_negative:
  "q < 0 \<Longrightarrow> ram_performance_of_percentage (js_round q) = PerformancePositive"
  using js_round_negative [of q] by auto

lemma calc_num_nonzero:
  "y \<noteq> 0 \<Longrightarrow> calculateRamPerformance (Num x) (Num y) = ram_performance_of_percentage (js_round (x / y))"
  by (simp add: calculateRamPerformance_def)

lemma perf_round_binary64_ratio:
  assumes "A < 2 ^ 53" "0 < B" "B < 2 ^ 53"
  shows "ram_performance_of_percentage (js_round ((of_nat A * 2 powi i) / (of_nat B * 2 powi j))) =
           spec_tier ((of_nat A * 2 powi i) / (of_nat B * 2 powi j))"
proof -
  let ?r = "(of_nat A * 2 powi i) / (of_nat B * 2 powi j) :: rat"
  have r0: "0 \<le> ?r" by simp
  consider "?r < 1/2" | "1/2 \<le> ?r" "?r < 1" | "1 \<le> ?r" by linarith
  then show ?thesis
  proof cases
    case 1
    with r0 show ?thesis by (simp add: perf_round_small spec_tier_below_half)
  next
    case 2
    obtain a b where "?r = of_nat a / of_nat b" "0 < b" "b < 2 ^ 54"
      using binary64_ratio_as_nat_ratio [OF assms refl 2(1)] .
    from perf_round_window [OF this 2] show ?thesis .
  next
    case 3
    then show ?thesis by (simp add: perf_round_large spec_tier_above_one)
  qed
qed

lemma calc_binary64:
  assumes "A < 2 ^ 53" "0 < B" "B < 2 ^ 53"
  shows "calculateRamPerformance (Num (of_nat A * 2 powi i)) (Num (of_nat B * 2 powi j)) =
           spec_tier ((of_nat A * 2 powi i) / (of_nat B * 2 powi j))"
  using assms by (simp add: calc_num_pos perf_round_binary64_ratio)

lemma calc_binary64_signed:
  fixes A B :: int
  assumes A: "\<bar>A\<bar> < 2 ^ 53" and B: "B \<noteq> 0" "\<bar>B\<bar> < 2 ^ 53"
  shows "calculateRamPerformance (Num (of_int A * 2 powi i)) (Num (of_int B * 2 powi j)) =
           spec_tier ((of_int A * 2 powi i) / (of_int B * 2 powi j))"
proof -
  let ?r = "(of_int A * 2 powi i) / (of_int B * 2 powi j) :: rat"
  have y: "(of_int B * 2 powi j :: rat) \<noteq> 0" using B(1) by simp
  have "ram_performance_of_percentage (js_round ?r) = spec_tier ?r"
  proof (cases "?r < 0")
    case True
    then have "?r < 1/2" by linarith
    with True show ?thesis by (simp only: perf_round_negative spec_tier_below_half)
  next
    case False
    have ab: "\<bar>?r\<bar> = (of_nat (nat \<bar>A\<bar>) * 2 powi i) / (of_nat (nat \<bar>B\<bar>) * 2 powi j)"
      by (simp add: abs_divide abs_mult)
    have "?r = \<bar>?r\<bar>" using False by linarith
    also note ab
    finally have r: "?r = (of_nat (nat \<bar>A\<bar>) * 2 powi i) / (of_nat (nat \<bar>B\<bar>) * 2 powi j)" .
    have "nat \<bar>A\<bar> < 2 ^ 53" "0 < nat \<bar>B\<bar>" "nat \<bar>B\<bar> < 2 ^ 53"
      using A B by (simp_all add: nat_less_iff)
    from perf_round_binary64_ratio [OF this, of i j] show ?thesis by (simp only: r)
  qed
  with y show ?thesis by (simp add: calc_num_nonzero)
qed

lemma js_round_one: "js_round 1 = Num 1"
  using js_round_upper [of 1 0] js_round_lower [of 1 0] by auto

section \<open>Properties of the classifier\<close>

text \<open>
  C1. For every pair of binary64 inputs with a nonzero divisor -- a required amount
  \<open>A * 2 powi i\<close> and a total \<open>B * 2 powi j\<close> with integer significands of
  magnitude below \<open>2 ^ 53\<close> -- the floating-point classifier of the code returns
  exactly the tier the exact ratio has under the specification's thresholds (section
  4.1): below 0.8 Positive, from 0.8 up to 1 Neutral, from 1 Negative.  Rounding of the quotient and of the literal 0.8 never
  moves a ratio across a threshold.
\<close>

theorem calculateRamPerformance_binary64:
  fixes A B :: int
  assumes "\<bar>A\<bar> < 2 ^ 53" "B \<noteq> 0" "\<bar>B\<bar> < 2 ^ 53"
  shows "calculateRamPerformance (Num (of_int A * 2 powi i)) (Num (of_int B * 2 powi j)) =
           spec_tier ((of_int A * 2 powi i) / (of_int B * 2 powi j))"
  using assms by (rule calc_binary64_signed)

theorem calculateRamPerformance_binary64_witness:
  "calculateRamPerformance (Num 4) (Num 5) = PerformanceNeutral \<and>
   calculateRamPerformance (Num (-9)) (Num 8) = PerformancePositive \<and>
   calculateRamPerformance (Num (-9)) (Num (-8)) = PerformanceNegative"
  using calculateRamPerformance_binary64 [of 4 5 0 0]
    calculateRamPerformance_binary64 [of "-9" 8 0 0]
    calculateRamPerformance_binary64 [of "-9" "-8" 0 0]
  by (simp add: spec_tier_def)

text \<open>
  C2. A model that needs exactly the RAM the host has is reported
  \<open>PerformanceNegative\<close> (\<open>Not enough RAM\<close>), whatever the amount: the quotient of a
  number by itself is exactly 1 (NaN for zero), and the chain asks for a percentage
  less than 1 for Neutral.  The comment at lines 7-10 puts this case in the
  yellow band (80-100%, red only when the user's RAM is below the requirement); the
  specification's section 4.1 agrees with the code.
\<close>

theorem calculateRamPerformance_equal_amounts:
  "calculateRamPerformance (Num x) (Num x) = PerformanceNegative"
proof (cases "x = 0")
  case True
  then show ?thesis by (simp add: calculateRamPerformance_def)
next
  case False
  then have "calculateRamPerformance (Num x) (Num x) = ram_performance_of_percentage (js_round 1)"
    by (simp add: calc_num_nonzero)
  then show ?thesis by (simp add: js_round_one)
qed

text \<open>
  C3. A total RAM of zero is not rejected: the division yields Infinity, or NaN when
  the requirement is zero as well, and both fall through to the last branch, so the
  code reports Negative (\<open>Not enough RAM\<close>); a negative requirement over zero yields
  -Infinity and is reported Positive.
\<close>

theorem calculateRamPerformance_zero_total:
  "calculateRamPerformance (Num x) (Num 0) =
     (if x < 0 then PerformancePositive else PerformanceNegative)"
  by (simp add: calculateRamPerformance_def)

text \<open>
  C4. Non-finite inputs: NaN on either side makes every comparison false, so the result
  is Negative; an infinite requirement over a positive total is Negative, and a finite
  requirement over an infinite total gives the quotient 0 and is Positive.
\<close>

theorem calculateRamPerformance_nonfinite:
  "calculateRamPerformance NaN y = PerformanceNegative \<and>
   calculateRamPerformance x NaN = PerformanceNegative \<and>
   calculateRamPerformance PosInf (Num t) = (if t < 0 then PerformancePositive else PerformanceNegative) \<and>
   calculateRamPerformance (Num r) PosInf = PerformancePositive"
  by (cases x) (simp_all add: calculateRamPerformance_def)

text \<open>
  C5. Monotonicity in the requirement: on binary64 inputs, for a fixed total, a model
  that needs at least as much RAM never gets a less severe tag.
\<close>

theorem calculateRamPerformance_mono_required:
  assumes "A1 < 2 ^ 53" "A2 < 2 ^ 53" "0 < B" "B < 2 ^ 53"
    and "(of_nat A1 * 2 powi i1 :: rat) \<le> of_nat A2 * 2 powi i2"
  shows "calculateRamPerformance (Num (of_nat A1 * 2 powi i1)) (Num (of_nat B * 2 powi j)) \<le>
         calculateRamPerformance (Num (of_nat A2 * 2 powi i2)) (Num (of_nat B * 2 powi j))"
proof -
  have "0 < (of_nat B * 2 powi j :: rat)" using assms(3) by simp
  then have "(of_nat A1 * 2 powi i1) / (of_nat B * 2 powi j) \<le> (of_nat A2 * 2 powi i2) / (of_nat B * 2 powi j :: rat)"
    using assms(5) by (simp add: divide_right_mono)
  then show ?thesis
    using assms(1-4) by (simp add: calc_binary64 spec_tier_mono)
qed

theorem calculateRamPerformance_mono_required_witness:
  "calculateRamPerformance (Num 7) (Num 8) \<le> calculateRamPerformance (Num 9) (Num 8)"
  using calculateRamPerformance_mono_required [of 7 9 8 0 0 0] by simp

text \<open>
  C6. Antitonicity in the total: on binary64 inputs, for a fixed non-negative
  requirement, a host with at least as much RAM never gets a more severe tag.
\<close>

theorem calculateRamPerformance_antimono_total:
  assumes "A < 2 ^ 53" "0 < B1" "B1 < 2 ^ 53" "B2 < 2 ^ 53"
    and "(of_nat B1 * 2 powi j1 :: rat) \<le> of_nat B2 * 2 powi j2"
  shows "calculateRamPerformance (Num (of_nat A * 2 powi i)) (Num (of_nat B2 * 2 powi j2)) \<le>
         calculateRamPerformance (Num (of_nat A * 2 powi i)) (Num (of_nat B1 * 2 powi j1))"
proof -
  have b1: "0 < (of_nat B1 * 2 powi j1 :: rat)" using assms(2) by simp
  then have b2: "0 < (of_nat B2 * 2 powi j2 :: rat)" using assms(5) by linarith
  then have "0 < B2" by (simp add: zero_less_mult_iff)
  have "(of_nat A * 2 powi i) / (of_nat B2 * 2 powi j2) \<le> (of_nat A * 2 powi i) / (of_nat B1 * 2 powi j1 :: rat)"
    using assms(5) b1 b2 by (intro divide_left_mono) simp_all
  then show ?thesis
    using assms(1-4) \<open>0 < B2\<close> by (simp add: calc_binary64 spec_tier_mono)
qed

theorem calculateRamPerformance_antimono_total_witness:
  "calculateRamPerformance (Num 7) (Num 16) \<le> calculateRamPerformance (Num 7) (Num 8)"
  using calculateRamPerformance_antimono_total [of 7 8 16 0 0 0] by simp

end
