(* ===== verification/PerformanceHook.thy ===== *)
theory PerformanceHook
  imports PerformanceTag
begin

text \<open>
  The React hook \<open>useGetPerformanceTag\<close> (src/web/app/_hooks/useGetPerformanceTag.ts,
  lines 12-38).  Its state is the \<open>useState\<close> cell \<open>performanceTag\<close>, initially
  undefined.  \<open>getPerformanceForModel\<close> is asynchronous: a call suspends at
  \<open>await executeSerial(...)\<close> and continues when the system-monitoring promise
  settles, so several calls can be in flight and settle in any order.  The model keeps
  the in-flight continuations (\<open>pending\<close>, with the model version each call captured)
  and is driven by an explicit schedule of events: a call, or the settlement of one
  pending call's probe.  What the continuation after the \<open>await\<close> computes is
  \<open>get_performance_continuation\<close>, a value of \<open>call_error + model_performance\<close>: a
  rejected probe, an undefined \<open>resourceInfo\<close> (reading \<open>.mem\<close> throws a
  TypeError) or a value without \<open>mem\<close> (reading \<open>.total\<close> throws) end the call's
  promise in rejection, and \<open>settle_call\<close> then leaves the tag alone; an undefined
  \<open>total\<close> or \<open>maxRamRequired\<close> is converted to NaN by the division.  The title (lines 24-35) is derived from the tag on
  every render.
\<close>

section \<open>Definitions\<close>

record model_version =
  version_id :: string
  maxRamRequired :: "jsnum option"

record mem_info =
  total :: "jsnum option"

record resource_info =
  mem :: "mem_info option"

datatype probe_outcome = ProbeResolved "resource_info option" | ProbeRejected

record perf_hook_state =
  performanceTag :: "model_performance option"
  pending :: "(nat \<times> model_version) list"
  next_call :: nat

datatype hook_event = GetPerformanceForModel model_version | ProbeSettles nat probe_outcome

definition to_number :: "jsnum option \<Rightarrow> jsnum" where
  "to_number v = (case v of None \<Rightarrow> NaN | Some x \<Rightarrow> x)"

definition hook_init :: perf_hook_state where
  "hook_init = \<lparr>performanceTag = None, pending = [], next_call = 0\<rparr>"

definition performance_title :: "model_performance option \<Rightarrow> string" where
  "performance_title tag =
     (case tag of
        Some PerformancePositive \<Rightarrow> ''Recommended''
      | Some PerformanceNeutral \<Rightarrow> ''Slow on your device''
      | Some PerformanceNegative \<Rightarrow> ''Not enough RAM''
      | None \<Rightarrow> '''')"

definition useGetPerformanceTag :: "perf_hook_state \<Rightarrow> model_performance option \<times> string" where
  "useGetPerformanceTag s = (performanceTag s, performance_title (performanceTag s))"

definition probe_total :: "resource_info option \<Rightarrow> jsnum option" where
  "probe_total r =
     (case r of None \<Rightarrow> None
      | Some info \<Rightarrow> (case mem info of None \<Rightarrow> None | Some m \<Rightarrow> Some (to_number (total m))))"

datatype call_error = ExecuteSerialRejected | TypeErrorReading string

definition get_performance_continuation ::
  "model_version \<Rightarrow> probe_outcome \<Rightarrow> call_error + model_performance" where
  "get_performance_continuation mv outcome =
     (case outcome of
        ProbeRejected \<Rightarrow> Inl ExecuteSerialRejected
      | ProbeResolved None \<Rightarrow> Inl (TypeErrorReading ''mem'')
      | ProbeResolved (Some resourceInfo) \<Rightarrow>
          (case mem resourceInfo of
             None \<Rightarrow> Inl (TypeErrorReading ''total'')
           | Some m \<Rightarrow>
               Inr (calculateRamPerformance (to_number (maxRamRequired mv)) (to_number (total m)))))"

definition settle_call :: "perf_hook_state \<Rightarrow> model_version \<Rightarrow> probe_outcome \<Rightarrow> perf_hook_state" where
  "settle_call s mv outcome =
     (case get_performance_continuation mv outcome of
        Inl err \<Rightarrow> s
      | Inr tag \<Rightarrow> s\<lparr>performanceTag := Some tag\<rparr>)"

fun hook_step :: "perf_hook_state \<Rightarrow> hook_event \<Rightarrow> perf_hook_state" where
  "hook_step s (GetPerformanceForModel mv) =
     s\<lparr>pending := pending s @ [(next_call s, mv)], next_call := Suc (next_call s)\<rparr>"
| "hook_step s (ProbeSettles i outcome) =
     (case map_of (pending s) i of
        None \<Rightarrow> s
      | Some mv \<Rightarrow> settle_call (s\<lparr>pending := filter (\<lambda>p. fst p \<noteq> i) (pending s)\<rparr>) mv outcome)"

definition hook_run :: "perf_hook_state \<Rightarrow> hook_event list \<Rightarrow> perf_hook_state" where
  "hook_run s es = foldl hook_step s es"

definition sets_tag :: "hook_event \<Rightarrow> bool" where
  "sets_tag e =
     (case e of ProbeSettles i (ProbeResolved (Some info)) \<Rightarrow> mem info \<noteq> None | _ \<Rightarrow> False)"

definition tag_justified :: "hook_event list \<Rightarrow> perf_hook_state \<Rightarrow> bool" where
  "tag_justified es s \<longleftrightarrow>
     (\<forall>p \<in> set (pending s). GetPerformanceForModel (snd p) \<in> set es) \<and>
     (case performanceTag s of
        None \<Rightarrow> True
      | Some t \<Rightarrow> (\<exists>mv tot. GetPerformanceForModel mv \<in> set es \<and>
                     (\<exists>i r. ProbeSettles i (ProbeResolved r) \<in> set es \<and> probe_total r = Some tot) \<and>
                     t = calculateRamPerformance (to_number (maxRamRequired mv)) tot))"

section \<open>Lemmas\<close>

lemma js_div_NaN [simp]: "js_div NaN y = NaN" "js_div x NaN = NaN"
  by (cases y; simp) (cases x; simp)

lemma settle_call_unfold:
  "settle_call s mv outcome =
     (case outcome of
        ProbeRejected \<Rightarrow> s
      | ProbeResolved r \<Rightarrow>
          (case probe_total r of
             None \<Rightarrow> s
           | Some totalRam \<Rightarrow>
               s\<lparr>performanceTag :=
                   Some (calculateRamPerformance (to_number (maxRamRequired mv)) totalRam)\<rparr>))"
  by (simp add: settle_call_def get_performance_continuation_def probe_total_def
      split: probe_outcome.split option.split)

lemma hook_run_Nil [simp]: "hook_run s [] = s"
  by (simp add: hook_run_def)

lemma hook_run_snoc [simp]: "hook_run s (es @ [e]) = hook_step (hook_run s es) e"
  by (simp add: hook_run_def)

lemma hook_run_Cons [simp]: "hook_run s (e # es) = hook_run (hook_step s e) es"
  by (simp add: hook_run_def)

lemma hook_run_append: "hook_run s (xs @ ys) = hook_run (hook_run s xs) ys"
  by (simp add: hook_run_def)

lemma hook_step_keeps_tag: "\<not> sets_tag e \<Longrightarrow> performanceTag (hook_step s e) = performanceTag s"
  by (cases e) (auto simp: sets_tag_def settle_call_unfold probe_total_def
      split: option.splits probe_outcome.splits)

lemma hook_run_keeps_tag:
  "\<forall>e \<in> set es. \<not> sets_tag e \<Longrightarrow> performanceTag (hook_run s es) = performanceTag s"
  by (induction es arbitrary: s) (simp_all add: hook_step_keeps_tag)

lemma settle_call_frame [simp]:
  "pending (settle_call s mv outcome) = pending s"
  "next_call (settle_call s mv outcome) = next_call s"
  by (simp_all add: settle_call_unfold split: probe_outcome.splits option.splits)

lemma tag_justified_mono:
  "tag_justified es s \<Longrightarrow> set es \<subseteq> set es' \<Longrightarrow> tag_justified es' s"
  by (auto simp: tag_justified_def split: option.splits) blast+

lemma settle_call_justified:
  "tag_justified es s \<Longrightarrow> GetPerformanceForModel mv \<in> set es \<Longrightarrow>
     ProbeSettles i outcome \<in> set es \<Longrightarrow> tag_justified es (settle_call s mv outcome)"
  by (auto simp: settle_call_unfold tag_justified_def split: probe_outcome.splits option.splits)

lemma hook_step_tag_justified:
  assumes "tag_justified es s"
  shows "tag_justified (es @ [e]) (hook_step s e)"
proof (cases e)
  case (GetPerformanceForModel mv)
  with assms show ?thesis
    by (auto simp: tag_justified_def split: option.splits)
next
  case (ProbeSettles i outcome)
  show ?thesis
  proof (cases "map_of (pending s) i")
    case None
    with assms ProbeSettles show ?thesis
      by (auto simp: tag_justified_def split: option.splits)
  next
    case (Some mv)
    then have "(i, mv) \<in> set (pending s)" by (rule map_of_SomeD)
    then have mv: "GetPerformanceForModel mv \<in> set es"
      using assms by (force simp: tag_justified_def)
    let ?s' = "s\<lparr>pending := filter (\<lambda>p. fst p \<noteq> i) (pending s)\<rparr>"
    have "tag_justified es ?s'"
      using assms by (auto simp: tag_justified_def)
    then have "tag_justified (es @ [e]) ?s'"
      by (rule tag_justified_mono) auto
    then have "tag_justified (es @ [e]) (settle_call ?s' mv outcome)"
      using mv ProbeSettles by (intro settle_call_justified) auto
    with ProbeSettles Some show ?thesis
      by (auto simp: tag_justified_def split: option.splits)
  qed
qed

lemma hook_run_justified: "tag_justified es (hook_run hook_init es)"
proof (induction es rule: rev_induct)
  case Nil
  show ?case by (simp add: tag_justified_def hook_init_def)
next
  case (snoc e es)
  then show ?case by (simp add: hook_step_tag_justified)
qed

lemma hook_step_tag_kept: "performanceTag s \<noteq> None \<Longrightarrow> performanceTag (hook_step s e) \<noteq> None"
  by (cases e) (auto simp: settle_call_unfold split: option.splits probe_outcome.splits)

lemma hook_run_tag_kept: "performanceTag s \<noteq> None \<Longrightarrow> performanceTag (hook_run s es) \<noteq> None"
proof (induction es arbitrary: s)
  case (Cons e es)
  from Cons.prems have "performanceTag (hook_step s e) \<noteq> None" by (rule hook_step_tag_kept)
  then show ?case by (simp only: hook_run_Cons) (rule Cons.IH)
qed simp

section \<open>Properties of the hook\<close>

text \<open>
  C7. Every tag the hook ever shows is the classification, by
  \<open>calculateRamPerformance\<close>, of the RAM requirement of a model version that
  \<open>getPerformanceForModel\<close> was called with, against a total that a probe of the
  schedule delivered.
\<close>

theorem hook_tag_from_requested_model:
  assumes "performanceTag (hook_run hook_init es) = Some t"
  shows "\<exists>mv tot. GetPerformanceForModel mv \<in> set es \<and>
           (\<exists>i r. ProbeSettles i (ProbeResolved r) \<in> set es \<and> probe_total r = Some tot) \<and>
           t = calculateRamPerformance (to_number (maxRamRequired mv)) tot"
  using hook_run_justified [of es] assms by (simp add: tag_justified_def)

theorem hook_tag_from_requested_model_witness:
  "\<exists>mv tot. GetPerformanceForModel mv \<in> set
      [GetPerformanceForModel \<lparr>version_id = ''m'', maxRamRequired = Some (Num 4)\<rparr>,
       ProbeSettles 0 (ProbeResolved (Some \<lparr>mem = Some \<lparr>total = Some (Num 8)\<rparr>\<rparr>))] \<and>
     (\<exists>i r. ProbeSettles i (ProbeResolved r) \<in> set
       [GetPerformanceForModel \<lparr>version_id = ''m'', maxRamRequired = Some (Num 4)\<rparr>,
        ProbeSettles 0 (ProbeResolved (Some \<lparr>mem = Some \<lparr>total = Some (Num 8)\<rparr>\<rparr>))] \<and>
       probe_total r = Some tot) \<and>
     PerformancePositive = calculateRamPerformance (to_number (maxRamRequired mv)) tot"
  using hook_tag_from_requested_model
    [of "[GetPerformanceForModel \<lparr>version_id = ''m'', maxRamRequired = Some (Num 4)\<rparr>,
          ProbeSettles 0 (ProbeResolved (Some \<lparr>mem = Some \<lparr>total = Some (Num 8)\<rparr>\<rparr>))]"
        PerformancePositive]
    calc_nat_ratio [of 8 4]
  by (simp add: hook_init_def settle_call_unfold probe_total_def to_number_def spec_tier_def)

text \<open>
  C8. Failures of the probe are absorbed without touching the tag: a rejected
  \<open>executeSerial\<close> promise, a resolved value that is undefined, or one without
  \<open>mem\<close> (a TypeError at \<open>resourceInfo.mem.total\<close>) leave the tag and the title as
  they were; the call is no longer pending.
\<close>

theorem hook_probe_failure_keeps_tag:
  "useGetPerformanceTag (hook_step s (ProbeSettles i ProbeRejected)) = useGetPerformanceTag s \<and>
   useGetPerformanceTag (hook_step s (ProbeSettles i (ProbeResolved None))) = useGetPerformanceTag s \<and>
   useGetPerformanceTag (hook_step s (ProbeSettles i (ProbeResolved (Some \<lparr>mem = None\<rparr>)))) =
     useGetPerformanceTag s"
  by (simp add: useGetPerformanceTag_def settle_call_unfold probe_total_def split: option.splits)

text \<open>
  C9. When the probe of a pending call resolves with a total, the continuation stores
  the classification of that call's own model version against the total (an undefined
  \<open>total\<close> or \<open>maxRamRequired\<close> enters as NaN), and exactly that call leaves the
  pending set.
\<close>

theorem hook_settle_sets_tag:
  assumes "map_of (pending s) i = Some mv"
  shows "performanceTag (hook_step s (ProbeSettles i (ProbeResolved (Some \<lparr>mem = Some \<lparr>total = tot\<rparr>\<rparr>)))) =
           Some (calculateRamPerformance (to_number (maxRamRequired mv)) (to_number tot)) \<and>
         pending (hook_step s (ProbeSettles i (ProbeResolved (Some \<lparr>mem = Some \<lparr>total = tot\<rparr>\<rparr>)))) =
           filter (\<lambda>p. fst p \<noteq> i) (pending s)"
  using assms by (simp add: settle_call_unfold probe_total_def)

theorem hook_settle_sets_tag_witness:
  "performanceTag (hook_step (hook_run hook_init [GetPerformanceForModel \<lparr>version_id = ''m'', maxRamRequired = Some (Num 7)\<rparr>])
      (ProbeSettles 0 (ProbeResolved (Some \<lparr>mem = Some \<lparr>total = Some (Num 8)\<rparr>\<rparr>)))) =
     Some PerformanceNeutral"
proof -
  have "map_of (pending (hook_run hook_init [GetPerformanceForModel \<lparr>version_id = ''m'', maxRamRequired = Some (Num 7)\<rparr>])) 0 =
      Some \<lparr>version_id = ''m'', maxRamRequired = Some (Num 7)\<rparr>"
    by (simp add: hook_init_def)
  from hook_settle_sets_tag [OF this, of "Some (Num 8)"] calc_nat_ratio [of 8 7]
  show ?thesis by (simp add: to_number_def spec_tier_def)
qed

text \<open>
  C10. Once a tag is shown it is never cleared: no call and no settlement, failed or
  not, returns the hook to the untagged state.
\<close>

theorem hook_tag_never_cleared:
  "performanceTag s \<noteq> None \<Longrightarrow> performanceTag (hook_run s es) \<noteq> None"
  by (rule hook_run_tag_kept)

theorem hook_tag_never_cleared_witness:
  "performanceTag (hook_run (hook_init\<lparr>performanceTag := Some PerformancePositive\<rparr>)
      [GetPerformanceForModel \<lparr>version_id = ''m'', maxRamRequired = None\<rparr>, ProbeSettles 0 ProbeRejected]) \<noteq> None"
  by (rule hook_tag_never_cleared) simp

text \<open>
  C11. The last settlement wins: once the probe of a pending call resolves with a
  memory reading, the tag is that call's classification for as long as no other
  settlement with a memory reading follows, whatever calls are made meanwhile.  So the tag follows the order in which probes
  settle, not the order of requests (the finding at the end of this theory).
\<close>

theorem hook_last_settlement_wins:
  assumes "map_of (pending (hook_run s es1)) i = Some mv"
    and "\<forall>e \<in> set es2. \<not> sets_tag e"
  shows "performanceTag
           (hook_run s (es1 @ ProbeSettles i (ProbeResolved (Some \<lparr>mem = Some \<lparr>total = t\<rparr>\<rparr>)) # es2)) =
         Some (calculateRamPerformance (to_number (maxRamRequired mv)) (to_number t))"
  using assms hook_run_keeps_tag [OF assms(2)]
  by (simp add: hook_run_append settle_call_unfold probe_total_def)

theorem hook_last_settlement_wins_witness:
  "performanceTag
     (hook_run hook_init
       [GetPerformanceForModel \<lparr>version_id = ''A'', maxRamRequired = Some (Num 9)\<rparr>,
        ProbeSettles 0 (ProbeResolved (Some \<lparr>mem = Some \<lparr>total = Some (Num 8)\<rparr>\<rparr>)),
        GetPerformanceForModel \<lparr>version_id = ''B'', maxRamRequired = Some (Num 4)\<rparr>,
        ProbeSettles 1 ProbeRejected]) =
   Some (calculateRamPerformance (Num 9) (Num 8))"
  using hook_last_settlement_wins
    [of hook_init "[GetPerformanceForModel \<lparr>version_id = ''A'', maxRamRequired = Some (Num 9)\<rparr>]" 0
        "\<lparr>version_id = ''A'', maxRamRequired = Some (Num 9)\<rparr>"
        "[GetPerformanceForModel \<lparr>version_id = ''B'', maxRamRequired = Some (Num 4)\<rparr>, ProbeSettles 1 ProbeRejected]"
        "Some (Num 8)"]
  by (simp add: hook_init_def sets_tag_def to_number_def)

text \<open>
  C12. A value that cannot be read is reported as a verdict, not as an error: when the
  probe resolves with memory information whose \<open>total\<close> is undefined, or the
  model version declares no \<open>maxRamRequired\<close>, the continuation of
  \<open>getPerformanceForModel\<close> does not reject; the division yields NaN and the call
  reports \<open>PerformanceNegative\<close>, shown as \<open>Not enough RAM\<close>.  Only a
  missing \<open>resourceInfo\<close> or \<open>mem\<close> rejects, with a TypeError.
\<close>

theorem get_performance_missing_value:
  assumes "maxRamRequired mv = None \<or> t = None"
  shows "get_performance_continuation mv (ProbeResolved (Some \<lparr>mem = Some \<lparr>total = t\<rparr>\<rparr>)) =
         Inr PerformanceNegative"
  using assms
  by (auto simp: get_performance_continuation_def calculateRamPerformance_def to_number_def)

theorem get_performance_missing_value_witness:
  "get_performance_continuation \<lparr>version_id = ''A'', maxRamRequired = Some (Num 4)\<rparr>
     (ProbeResolved (Some \<lparr>mem = Some \<lparr>total = None\<rparr>\<rparr>)) = Inr PerformanceNegative"
  using get_performance_missing_value [of "\<lparr>version_id = ''A'', maxRamRequired = Some (Num 4)\<rparr>" None]
  by simp

text \<open>
  C13. Missing resource data leaves the tier unset only until the first success: along
  any schedule in which no probe resolves with a memory reading the hook shows no tag
  and the empty title, as the specification asks of missing resource data.
\<close>

theorem hook_no_reading_no_tag:
  assumes "\<forall>e \<in> set es. \<not> sets_tag e"
  shows "useGetPerformanceTag (hook_run hook_init es) = (None, '''')"
  using hook_run_keeps_tag [OF assms, of hook_init]
  by (simp add: useGetPerformanceTag_def performance_title_def hook_init_def)

theorem hook_no_reading_no_tag_witness:
  "useGetPerformanceTag (hook_run hook_init
     [GetPerformanceForModel \<lparr>version_id = ''A'', maxRamRequired = Some (Num 4)\<rparr>,
      ProbeSettles 0 ProbeRejected]) = (None, '''')"
  using hook_no_reading_no_tag
    [of "[GetPerformanceForModel \<lparr>version_id = ''A'', maxRamRequired = Some (Num 4)\<rparr>, ProbeSettles 0 ProbeRejected]"]
  by (simp add: sets_tag_def)

section \<open>Finding: the order of settlement\<close>

text \<open>
  Finding (line 21). The hook does not order its calls: when a call for model A (9 GB) is followed by
  a call for model B (4 GB) on an 8 GB host and A's probe settles last, the hook shows
  A's tag \<open>Not enough RAM\<close> although B, the model asked about last, is \<open>Recommended\<close>.
\<close>

lemma hook_stale_tag:
  "useGetPerformanceTag
     (hook_run hook_init
       [GetPerformanceForModel \<lparr>version_id = ''A'', maxRamRequired = Some (Num 9)\<rparr>,
        GetPerformanceForModel \<lparr>version_id = ''B'', maxRamRequired = Some (Num 4)\<rparr>,
        ProbeSettles 1 (ProbeResolved (Some \<lparr>mem = Some \<lparr>total = Some (Num 8)\<rparr>\<rparr>)),
        ProbeSettles 0 (ProbeResolved (Some \<lparr>mem = Some \<lparr>total = Some (Num 8)\<rparr>\<rparr>))])
     = (Some PerformanceNegative, ''Not enough RAM'') \<and>
   calculateRamPerformance (Num 4) (Num 8) = PerformancePositive"
  using calc_nat_ratio [of 8 4] calc_nat_ratio [of 8 9]
  by (simp add: hook_init_def settle_call_unfold probe_total_def to_number_def spec_tier_def
      useGetPerformanceTag_def performance_title_def)

end
