(* ===== verification/ErrorMessage.thy ===== *)
theory ErrorMessage
  imports Prelude
begin

text \<open>
  The ErrorMessage component (web/containers/ErrorMessage/index.tsx, not under src/;
  modelled from the specification, sections 3, 4.2 and 6, and from the texts and
  calls its test file src/web/containers/ErrorMessage/index.test.tsx observes).
  A message's status and error code select a recovery disposition; the component
  renders the disposition's text and one clickable element whose handler calls one
  collaborator.  Collaborators are obtained through hooks: \<open>useSendChatMessage\<close>
  yields \<open>resendChatMessage\<close>, \<open>useSetAtom\<close> yields a setter for a jotai atom.
  The model abstracts the collaborators to handles of a type variable \<open>'h\<close>: an
  environment says which handle each hook returns, and a rendered node records the
  calls (handle and argument) its click performs.  The same component is thereby run
  against a real wiring and against the jest mocks of the test file.
\<close>

section \<open>Definitions\<close>

datatype message_status = Stopped | Error | OtherStatus string

datatype error_code = InvalidApiKey | Unknown | OtherErrorCode string

record thread_message =
  message_id :: string
  status :: message_status
  error_code :: "error_code option"
  content :: "string list"

datatype disposition = Interrupted | AuthError | GenericError

datatype atom = SelectedSettingAtom | ModalTroubleShootingAtom

datatype call_arg = ArgMessage thread_message | ArgSettingScreen | ArgBool bool

record 'h component_env =
  resend_chat_message :: 'h
  use_set_atom :: "atom \<Rightarrow> 'h"

record 'h node =
  node_text :: string
  node_testid :: "string option"
  on_click :: "('h \<times> call_arg) list"

type_synonym 'h renderer = "'h component_env \<Rightarrow> thread_message \<Rightarrow> 'h node list"

definition classify_message :: "thread_message \<Rightarrow> disposition option" where
  "classify_message m =
     (case status m of
        Stopped \<Rightarrow> Some Interrupted
      | Error \<Rightarrow> (case error_code m of Some InvalidApiKey \<Rightarrow> Some AuthError | _ \<Rightarrow> Some GenericError)
      | OtherStatus _ \<Rightarrow> None)"

definition interrupted_text :: string where
  "interrupted_text = ''Oops! The generation was interrupted. Let's give it another go!''"

definition generic_error_title :: string where
  "generic_error_title = ''Apologies, something'' @ [CHR 0xE2, CHR 0x80, CHR 0x99] @ ''s amiss!''"

definition text_node :: "string \<Rightarrow> 'h node" where
  "text_node t = \<lparr>node_text = t, node_testid = None, on_click = []\<rparr>"

definition action_node :: "string \<Rightarrow> 'h \<Rightarrow> call_arg \<Rightarrow> 'h node" where
  "action_node t h a = \<lparr>node_text = t, node_testid = None, on_click = [(h, a)]\<rparr>"

fun disposition_nodes :: "'h component_env \<Rightarrow> thread_message \<Rightarrow> disposition \<Rightarrow> 'h node list" where
  "disposition_nodes env m Interrupted =
     [text_node interrupted_text,
      action_node ''Regenerate'' (resend_chat_message env) (ArgMessage m)]"
| "disposition_nodes env m AuthError =
     [\<lparr>node_text = [], node_testid = Some ''invalid-API-key-error'', on_click = []\<rparr>,
      action_node ''Settings'' (use_set_atom env SelectedSettingAtom) ArgSettingScreen]"
| "disposition_nodes env m GenericError =
     [text_node generic_error_title,
      action_node ''troubleshooting assistance'' (use_set_atom env ModalTroubleShootingAtom) (ArgBool True)]"

definition error_message :: "'h renderer" where
  "error_message env m =
     (case classify_message m of None \<Rightarrow> [] | Some d \<Rightarrow> disposition_nodes env m d)"

definition wired_calls :: "'h node list \<Rightarrow> ('h \<times> call_arg) list" where
  "wired_calls ns = concat (map on_click ns)"

section \<open>Lemmas\<close>

lemma classify_message_simps [simp]:
  "status m = Stopped \<Longrightarrow> classify_message m = Some Interrupted"
  "status m = Error \<Longrightarrow> error_code m = Some InvalidApiKey \<Longrightarrow> classify_message m = Some AuthError"
  "status m = Error \<Longrightarrow> error_code m \<noteq> Some InvalidApiKey \<Longrightarrow> classify_message m = Some GenericError"
  "status m = OtherStatus s \<Longrightarrow> classify_message m = None"
  by (auto simp: classify_message_def split: option.splits error_code.splits)

lemma node_fields [simp]:
  "node_text (text_node t) = t" "node_testid (text_node t) = None" "on_click (text_node t) = []"
  "node_text (action_node t h a) = t" "node_testid (action_node t h a) = None"
  "on_click (action_node t h a) = [(h, a)]"
  by (simp_all add: text_node_def action_node_def)

lemma wired_calls_simps [simp]:
  "wired_calls [] = []"
  "wired_calls (n # ns) = on_click n @ wired_calls ns"
  by (simp_all add: wired_calls_def)

section \<open>Properties of the component\<close>

text \<open>
  The recovery contract: for every message and every wiring, the rendered
  component wires exactly one collaborator call: a stopped message resends itself,
  an error with code InvalidApiKey switches the settings screen, an error with any
  other code or none (the catch-all) opens the troubleshooting modal with \<open>true\<close>,
  and a message with any other status renders nothing and wires nothing.
\<close>

theorem error_message_wired_calls:
  "wired_calls (error_message env m) =
     (case status m of
        Stopped \<Rightarrow> [(resend_chat_message env, ArgMessage m)]
      | Error \<Rightarrow>
          (if error_code m = Some InvalidApiKey
           then [(use_set_atom env SelectedSettingAtom, ArgSettingScreen)]
           else [(use_set_atom env ModalTroubleShootingAtom, ArgBool True)])
      | OtherStatus s \<Rightarrow> []) \<and>
   (error_message env m = [] \<longleftrightarrow> classify_message m = None)"
  by (cases "status m") (auto simp: error_message_def)

end
