(* ===== verification/ErrorMessageTest.thy ===== *)
theory ErrorMessageTest
  imports ErrorMessage
begin

text \<open>
  The test file src/web/containers/ErrorMessage/index.test.tsx as a program over the
  component model.  jest's module mocks (lines 11-23) replace \<open>useAtomValue\<close>,
  \<open>useSetAtom\<close> and \<open>useSendChatMessage\<close> by mock functions whose return value is
  set by \<open>mockReturnValue\<close>; a later \<open>mockReturnValue\<close> on the same mock replaces
  the earlier one, and \<open>jest.clearAllMocks\<close> forgets recorded calls but keeps return
  values.  The state \<open>jest_state\<close> holds those return values and the calls recorded
  on the four mock functions of lines 26-29.  \<open>beforeEach\<close> (lines 31-38) is a
  sequence of mock operations.  testing-library's \<open>getByText\<close> and
  \<open>getByTestId\<close> fail unless exactly one element matches; \<open>fireEvent.click\<close>
  runs the element's handler, and calling an undefined function fails.  Each
  \<open>it\<close> block is a boolean function of the renderer under test, so the suite can be
  run against the component model and against variants of it.
\<close>

section \<open>Definitions\<close>

datatype mock_fn = MockSetMainState | MockSetSelectedSettingScreen | MockSetModalTroubleShooting
  | MockResendChatMessage

record jest_state =
  atom_value_return :: "thread_message list option"
  set_atom_return :: "mock_fn option"
  send_chat_return :: "mock_fn option"
  mock_calls :: "(mock_fn \<times> call_arg) list"

datatype jest_op = ClearAllMocks | AtomValueReturns "thread_message list"
  | SetAtomReturns mock_fn | SendChatReturns mock_fn

datatype test_error = NoMatch string | MultipleMatches string | RenderTypeError | CallTypeError

definition jest_setup :: jest_state where
  "jest_setup = \<lparr>atom_value_return = None, set_atom_return = None, send_chat_return = None,
     mock_calls = []\<rparr>"

fun jest_apply :: "jest_state \<Rightarrow> jest_op \<Rightarrow> jest_state" where
  "jest_apply s ClearAllMocks = s\<lparr>mock_calls := []\<rparr>"
| "jest_apply s (AtomValueReturns v) = s\<lparr>atom_value_return := Some v\<rparr>"
| "jest_apply s (SetAtomReturns f) = s\<lparr>set_atom_return := Some f\<rparr>"
| "jest_apply s (SendChatReturns f) = s\<lparr>send_chat_return := Some f\<rparr>"

definition before_each_ops :: "jest_op list" where
  "before_each_ops =
     [ClearAllMocks, AtomValueReturns [],
      SetAtomReturns MockSetMainState,
      SetAtomReturns MockSetSelectedSettingScreen,
      SetAtomReturns MockSetModalTroubleShooting,
      SendChatReturns MockResendChatMessage]"

definition before_each :: "jest_state \<Rightarrow> jest_state" where
  "before_each s = foldl jest_apply s before_each_ops"

definition mock_env :: "jest_state \<Rightarrow> mock_fn option component_env" where
  "mock_env s = \<lparr>resend_chat_message = send_chat_return s, use_set_atom = (\<lambda>_. set_atom_return s)\<rparr>"

definition mock_render ::
  "mock_fn option renderer \<Rightarrow> jest_state \<Rightarrow> thread_message \<Rightarrow> test_error + mock_fn option node list" where
  "mock_render r s m =
     (if send_chat_return s = None then Inl RenderTypeError else Inr (r (mock_env s) m))"

definition get_by_text :: "string \<Rightarrow> 'h node list \<Rightarrow> test_error + 'h node" where
  "get_by_text t ns =
     (case filter (\<lambda>n. node_text n = t) ns of
        [] \<Rightarrow> Inl (NoMatch t) | [n] \<Rightarrow> Inr n | _ \<Rightarrow> Inl (MultipleMatches t))"

definition get_by_testid :: "string \<Rightarrow> 'h node list \<Rightarrow> test_error + 'h node" where
  "get_by_testid t ns =
     (case filter (\<lambda>n. node_testid n = Some t) ns of
        [] \<Rightarrow> Inl (NoMatch t) | [n] \<Rightarrow> Inr n | _ \<Rightarrow> Inl (MultipleMatches t))"

fun perform_calls :: "jest_state \<Rightarrow> (mock_fn option \<times> call_arg) list \<Rightarrow> test_error + jest_state" where
  "perform_calls s [] = Inr s"
| "perform_calls s ((None, a) # cs) = Inl CallTypeError"
| "perform_calls s ((Some f, a) # cs) = perform_calls (s\<lparr>mock_calls := mock_calls s @ [(f, a)]\<rparr>) cs"

definition fire_click :: "jest_state \<Rightarrow> mock_fn option node \<Rightarrow> test_error + jest_state" where
  "fire_click s n = perform_calls s (on_click n)"

definition found :: "test_error + 'a \<Rightarrow> bool" where
  "found x = (case x of Inl _ \<Rightarrow> False | Inr _ \<Rightarrow> True)"

definition stopped_message :: thread_message where
  "stopped_message = \<lparr>message_id = ''1'', status = Stopped, error_code = None,
     content = [''Test message'']\<rparr>"

definition invalid_key_message :: thread_message where
  "invalid_key_message = \<lparr>message_id = ''1'', status = Error, error_code = Some InvalidApiKey,
     content = [''Invalid API Key'']\<rparr>"

definition unknown_error_message :: thread_message where
  "unknown_error_message = \<lparr>message_id = ''1'', status = Error, error_code = Some Unknown,
     content = [''Unknown error occurred'']\<rparr>"

definition test_renders_stopped :: "mock_fn option renderer \<Rightarrow> bool" where
  "test_renders_stopped r =
     (case mock_render r (before_each jest_setup) stopped_message of
        Inl _ \<Rightarrow> False
      | Inr ns \<Rightarrow> found (get_by_text interrupted_text ns) \<and> found (get_by_text ''Regenerate'' ns))"

definition test_renders_invalid_key :: "mock_fn option renderer \<Rightarrow> bool" where
  "test_renders_invalid_key r =
     (case mock_render r (before_each jest_setup) invalid_key_message of
        Inl _ \<Rightarrow> False
      | Inr ns \<Rightarrow> found (get_by_testid ''invalid-API-key-error'' ns) \<and> found (get_by_text ''Settings'' ns))"

definition test_renders_general_error :: "mock_fn option renderer \<Rightarrow> bool" where
  "test_renders_general_error r =
     (case mock_render r (before_each jest_setup) unknown_error_message of
        Inl _ \<Rightarrow> False
      | Inr ns \<Rightarrow> found (get_by_text generic_error_title ns) \<and>
                 found (get_by_text ''troubleshooting assistance'' ns))"

definition test_regenerate_click :: "mock_fn option renderer \<Rightarrow> bool" where
  "test_regenerate_click r =
     (let s = before_each jest_setup in
      case mock_render r s stopped_message of
        Inl _ \<Rightarrow> False
      | Inr ns \<Rightarrow>
          (case get_by_text ''Regenerate'' ns of
             Inl _ \<Rightarrow> False
           | Inr n \<Rightarrow>
               (case fire_click s n of
                  Inl _ \<Rightarrow> False
                | Inr s' \<Rightarrow> MockResendChatMessage \<in> fst ` set (mock_calls s'))))"

definition test_troubleshooting_click :: "mock_fn option renderer \<Rightarrow> bool" where
  "test_troubleshooting_click r =
     (let s = before_each jest_setup in
      case mock_render r s unknown_error_message of
        Inl _ \<Rightarrow> False
      | Inr ns \<Rightarrow>
          (case get_by_text ''troubleshooting assistance'' ns of
             Inl _ \<Rightarrow> False
           | Inr n \<Rightarrow>
               (case fire_click s n of
                  Inl _ \<Rightarrow> False
                | Inr s' \<Rightarrow> (MockSetModalTroubleShooting, ArgBool True) \<in> set (mock_calls s'))))"

definition error_message_suite :: "mock_fn option renderer \<Rightarrow> bool" where
  "error_message_suite r \<longleftrightarrow>
     test_renders_stopped r \<and> test_renders_invalid_key r \<and> test_renders_general_error r \<and>
     test_regenerate_click r \<and> test_troubleshooting_click r"

definition swap_atom :: "atom \<Rightarrow> atom" where
  "swap_atom a = (case a of SelectedSettingAtom \<Rightarrow> ModalTroubleShootingAtom
                  | ModalTroubleShootingAtom \<Rightarrow> SelectedSettingAtom)"

definition swapped_setters :: "'h renderer \<Rightarrow> 'h renderer" where
  "swapped_setters r env m = r (env\<lparr>use_set_atom := use_set_atom env \<circ> swap_atom\<rparr>) m"

definition resends_other :: "thread_message \<Rightarrow> 'h renderer \<Rightarrow> 'h renderer" where
  "resends_other m' r env m =
     map (\<lambda>n. n\<lparr>on_click := map (\<lambda>(h, a). (h, case a of ArgMessage _ \<Rightarrow> ArgMessage m' | _ \<Rightarrow> a))
                                  (on_click n)\<rparr>) (r env m)"

definition distinct_wiring :: "nat component_env" where
  "distinct_wiring = \<lparr>resend_chat_message = 0,
     use_set_atom = (\<lambda>a. case a of SelectedSettingAtom \<Rightarrow> 1 | ModalTroubleShootingAtom \<Rightarrow> 2)\<rparr>"

definition fires_twice :: "'h renderer \<Rightarrow> 'h renderer" where
  "fires_twice r env m = map (\<lambda>n. n\<lparr>on_click := on_click n @ on_click n\<rparr>) (r env m)"

section \<open>Lemmas\<close>

lemma before_each_jest_setup:
  "before_each jest_setup =
     \<lparr>atom_value_return = Some [], set_atom_return = Some MockSetModalTroubleShooting,
      send_chat_return = Some MockResendChatMessage, mock_calls = []\<rparr>"
  by (simp add: before_each_def before_each_ops_def jest_setup_def)

lemmas suite_unfold = error_message_suite_def test_renders_stopped_def test_renders_invalid_key_def
  test_renders_general_error_def test_regenerate_click_def test_troubleshooting_click_def
  before_each_jest_setup mock_render_def mock_env_def error_message_def get_by_text_def
  get_by_testid_def found_def fire_click_def stopped_message_def invalid_key_message_def
  unknown_error_message_def interrupted_text_def generic_error_title_def

section \<open>What the test suite does not check\<close>

text \<open>
  Finding (test line 34). \<open>beforeEach\<close> calls \<open>mockReturnValue\<close> on \<open>useSetAtom\<close> three times, so
  only the last value survives: every setter the component obtains is
  \<open>mockSetModalTroubleShooting\<close>.  The suite therefore cannot tell which atom a setter
  belongs to: a component whose settings and troubleshooting setters are swapped passes
  all five tests, although with distinct setters its troubleshooting link calls the
  settings setter (handle 1) with \<open>true\<close>.
\<close>

lemma suite_misses_swapped_setters:
  "(\<forall>a. use_set_atom (mock_env (before_each jest_setup)) a = Some MockSetModalTroubleShooting) \<and>
   error_message_suite (swapped_setters error_message) \<and>
   wired_calls (swapped_setters error_message distinct_wiring unknown_error_message) = [(1, ArgBool True)] \<and>
   wired_calls (error_message distinct_wiring unknown_error_message) = [(2, ArgBool True)]"
  by (simp add: suite_unfold swapped_setters_def swap_atom_def distinct_wiring_def)

text \<open>
  Finding (test line 91). The regenerate test checks only that the resend mock was called
  (\<open>toHaveBeenCalled\<close>), not with which message, while the specification requires the
  message's own identity: a component that resends another message (id 2) passes all
  five tests.
\<close>

lemma suite_misses_resend_argument:
  "error_message_suite (resends_other (stopped_message\<lparr>message_id := ''2''\<rparr>) error_message) \<and>
   wired_calls (resends_other (stopped_message\<lparr>message_id := ''2''\<rparr>) error_message distinct_wiring stopped_message) =
     [(0, ArgMessage (stopped_message\<lparr>message_id := ''2''\<rparr>))] \<and>
   wired_calls (error_message distinct_wiring stopped_message) = [(0, ArgMessage stopped_message)]"
  by (simp add: suite_unfold resends_other_def distinct_wiring_def)

text \<open>
  Finding (test lines 91 and 105). The suite does not enforce the specification's exactly once: a component that
  fires every action twice (a double resend, a double navigation) still passes all
  five tests, because the click tests assert \<open>toHaveBeenCalled\<close> and
  \<open>toHaveBeenCalledWith\<close>, which hold for any positive number of calls.
\<close>

lemma suite_misses_double_call: "error_message_suite (fires_twice error_message)"
  by (simp add: suite_unfold fires_twice_def text_node_def action_node_def)

end
