(* ===== verification/Spec2Isabelle.thy ===== *)
theory Spec2Isabelle
  imports PerformanceHook ErrorMessageTest
begin

text \<open>
  A verification development for jan-aibot's two decision-policy fragments
  (src/web/app/_hooks/useGetPerformanceTag.ts and the ErrorMessage component exercised
  by src/web/containers/ErrorMessage/index.test.tsx).

  \<^bold>\<open>Parts of the program.\<close>
  \<^item> The RAM-fit classifier \<open>calculateRamPerformance\<close> (useGetPerformanceTag.ts,
    lines 40-53): divides the model's required RAM by the host's total RAM and picks a
    \<open>ModelPerformance\<close> tag by the thresholds 0.8 and 1.
  \<^item> The hook \<open>useGetPerformanceTag\<close> (lines 12-38): React state holding the tag,
    an asynchronous \<open>getPerformanceForModel\<close> that awaits the system-monitoring
    service and stores the classification, and the title derived from the tag.
  \<^item> The ErrorMessage component, whose source is not under src/: it classifies a
    stopped or failed chat message into a recovery disposition and wires one action
    (regenerate, open settings, open troubleshooting).  It is modelled from the
    specification and from what its test file observes, as the object the tests run on.
  \<^item> The test file of ErrorMessage: jest mocks of jotai and of the chat-resend hook,
    a beforeEach that configures them, and five test cases.
  The two fragments share no data.

  \<^bold>\<open>Theories.\<close>
  \<^item> \<open>Prelude\<close>: collections of rewrite rules and powers of two with integer
    exponents over the rationals.
  \<^item> \<open>JsNumber\<close>: the JavaScript number semantics the classifier runs on (the
    language runtime, not repository code): \<open>jsnum\<close> (finite rationals, the two
    infinities, NaN), executable round-to-nearest-even \<open>js_round\<close> (53-bit
    significand, subnormals from \<open>2 powi -1074\<close>, overflow at \<open>2 ^ 1024\<close>), the
    division \<open>js_div\<close> and the comparisons \<open>js_less\<close> and \<open>js_ge\<close> after ECMA-262
    (a comparison with NaN is undefined, so both are false), and literals.  Its lemmas
    (exponent bounds, monotonicity of round-half-even, bounds of the rounded value next
    to powers of two, the exact form of rounding on [1/2, 1)) serve the classifier.
  \<^item> \<open>PerformanceTag\<close>: \<open>model_performance\<close> (ordered by severity),
    \<open>calculateRamPerformance\<close> with its if-chain \<open>ram_performance_of_percentage\<close>,
    and \<open>spec_tier\<close>, the classification of section 4.1 of the specification on the
    exact ratio.  Claims: on every pair of binary64 inputs with a nonzero total the
    code returns \<open>spec_tier\<close> of the exact ratio (C1; inside [1/2, 1) the ratio is a
    quotient of naturals with denominator below \<open>2 ^ 54\<close>, which keeps it more than
    half an ulp away from the binary64 value of 0.8 and from 1); equal amounts are
    Negative (C2), which the comment at lines 7-10 contradicts; a zero total (C3) and
    non-finite inputs (C4) fall through to the last branches; the tag is monotone in
    the requirement (C5) and antitone in the total (C6).
  \<^item> \<open>PerformanceHook\<close>: the hook's state (\<open>performanceTag\<close>; the in-flight calls
    with the model version each captured, keyed by a call number that stands for the
    identity of each suspended continuation), the events (a call of
    \<open>getPerformanceForModel\<close>; the settlement of one call's probe), \<open>hook_step\<close>,
    runs over an explicit schedule standing for any interleaving the event loop may
    produce, the continuation after the \<open>await\<close> as
    \<open>get_performance_continuation\<close> with the call's rejections as values of
    \<open>call_error\<close>, and the title switch.  Claims: every shown tag classifies a
    requested model against a delivered total (C7, by induction over the run); a
    failed probe leaves tag and title unchanged (C8); a settlement stores the
    classification of its own call's model (C9); a tag is never cleared (C10); the last
    settlement with a memory reading decides the tag whatever calls follow (C11); a
    missing total or requirement is no rejection but a negative verdict (C12); while no
    probe yields a memory reading no tag and the empty title are shown (C13).  A
    closing lemma exhibits the race behind C11 on one schedule.
  \<^item> \<open>ErrorMessage\<close>: the component, modelled from the specification over an abstract
    handle type: \<open>classify_message\<close>, the rendered nodes with their texts, test ids and
    click handlers.
  \<^item> \<open>ErrorMessageTest\<close>: the jest mocks, \<open>beforeEach\<close>, testing-library queries
    and clicks, the five tests as functions of the renderer.  Its lemmas back the
    findings on the test file: the three \<open>mockReturnValue\<close> calls on
    \<open>useSetAtom\<close> overwrite each other, the resend argument is not checked, and
    exactly once is not checked.
  \<^item> This theory: the end-to-end property of the RAM-fit path (C14): when the probe of
    a pending call settles with a binary64 total and the call's model has a binary64
    requirement, the hook shows the specification's tier of the exact ratio and its
    label.

  \<^bold>\<open>Bounds.\<close>  The program has no loop and no recursion, so no definition needs
  fuel: every operation is a non-recursive definition or a structural recursion
  (\<open>js_div\<close> and \<open>hook_step\<close> by cases; \<open>perform_calls\<close> over the list of wired
  calls; runs as folds over the schedule).  The only numeric bounds are those of
  binary64 (53-bit significands, exponents from -1074, overflow at \<open>2 ^ 1024\<close>),
  which C1, C5, C6 and C14 take as hypotheses because JavaScript values satisfy them.

  \<^bold>\<open>Not modelled.\<close>  Rendering, styling, React's scheduling beyond the order of
  events, the system-monitoring service and the plugin execution layer
  (\<open>executeSerial\<close>) are outside the model; only the value their promise settles
  with is.  The code has no timeout on the probe, and the model has no timeout event.
  Signed zero is identified with zero.  The ErrorMessage component's source is not in
  the repository: its model follows the specification and the texts its test observes,
  so no property is claimed of it; the test file's gaps are recorded as findings.
\<close>



end
